theory Spec2Isabelle
  imports Complex_Main
begin

section \<open>Numbers\<close>

text \<open>
  The library computes with JavaScript numbers. They are modelled as real numbers:
  the rounding of IEEE doubles, NaN and the infinities are outside the model, so a
  division is only meaningful here when its divisor is not zero.
  \<^verbatim>\<open>Math.round\<close> rounds half up, as \<^const>\<open>round\<close> does.
\<close>

definition Math_round :: "real \<Rightarrow> real" where
  "Math_round v = of_int (round v)"

definition Math_ceil :: "real \<Rightarrow> real" where
  "Math_ceil v = of_int \<lceil>v\<rceil>"

definition Math_floor :: "real \<Rightarrow> real" where
  "Math_floor v = of_int \<lfloor>v\<rfloor>"

text \<open>
  A number that may be missing (\<^verbatim>\<open>undefined\<close> or \<^verbatim>\<open>null\<close>) is an option. In a
  condition it is truthy when it is there and not 0. \<^verbatim>\<open>null\<close> used in arithmetic
  is 0 (the fuel unit cost of a market without FUEL); \<open>ToNumber\<close> is only applied
  to \<^verbatim>\<open>null\<close> or to a number that is there.
\<close>

definition truthy :: "real option \<Rightarrow> bool" where
  "truthy v = (case v of None \<Rightarrow> False | Some r \<Rightarrow> r \<noteq> 0)"

definition ToNumber :: "real option \<Rightarrow> real" where
  "ToNumber v = (case v of None \<Rightarrow> 0 | Some r \<Rightarrow> r)"

section \<open>Data model (interfaces/index.ts)\<close>

record IGood =
  quantityAvailable :: real
  volumePerUnit :: real
  pricePerUnit :: real
  spread :: real
  purchasePricePerUnit :: real
  sellPricePerUnit :: real
  good_symbol :: string

text \<open>The marketplace of a location is optional: \<open>None\<close> is the missing field.\<close>

record ILocation =
  loc_symbol :: string
  loc_type :: string
  loc_name :: string
  loc_x :: real
  loc_y :: real
  marketplace :: "IGood list option"

record ICargo =
  good :: string
  quantity :: real
  totalVolume :: real

record IShip =
  ship_id :: string
  ship_location :: string
  ship_x :: real
  ship_y :: real
  ship_cargo :: "ICargo list"
  spaceAvailable :: real
  ship_type :: string
  ship_class :: string
  maxCargo :: real
  speed :: real
  manufacturer :: string
  plating :: real
  weapons :: real

record ITradeRoute =
  route_destination :: ILocation
  route_cargo :: "ICargo list"

record ITrade =
  destination :: ILocation
  localGood :: IGood
  destinationGood :: IGood

record ITradeOption =
  trade :: ITrade
  profitPerDU :: real

text \<open>
  A parameter object may leave a field out; \<open>None\<close> is the field that is not there.
\<close>

record INavigationParameters =
  param_range :: "real option"
  param_fuelMargin :: "real option"

text \<open>
  The enumeration \<^verbatim>\<open>ShipClass\<close> (enums/index.js) is imported by the calculation
  module; only the three members the module names are needed, and their string values
  are a parameter of every function that reads them.
\<close>

record ShipClass =
  HM_MK_III :: string
  GR_MK_III :: string
  GR_MK_II :: string

section \<open>Mentat: the calculation module\<close>

definition calculateDistance :: "real \<Rightarrow> real \<Rightarrow> real \<Rightarrow> real \<Rightarrow> real" where
  "calculateDistance ax ay bx b_y = sqrt (\<bar>(ax - bx)\<^sup>2\<bar> + \<bar>(ay - b_y)\<^sup>2\<bar>)"

definition calculateLocationDistance :: "ILocation \<Rightarrow> ILocation \<Rightarrow> real" where
  "calculateLocationDistance a b = calculateDistance (loc_x a) (loc_y a) (loc_x b) (loc_y b)"

text \<open>
  The \<^verbatim>\<open>switch\<close> on \<^verbatim>\<open>ship.type\<close> takes the first case that equals it;
  \<open>multiplier\<close> starts at 0.25 and only the first case changes it.
\<close>

definition calculateFuelToTravel :: "ShipClass \<Rightarrow> IShip \<Rightarrow> ILocation \<Rightarrow> ILocation \<Rightarrow> real" where
  "calculateFuelToTravel E sh location dest =
     (let isPlanet = (loc_type location = ''PLANET'');
          multiplier = (if ship_type sh = HM_MK_III E then 0.188 else 0.25);
          penalty =
            (if ship_type sh = HM_MK_III E then (if isPlanet then 1 else 0)
             else if ship_type sh = GR_MK_III E then (if isPlanet then 4 else 0)
             else if ship_type sh = GR_MK_II E then (if isPlanet then 3 else 0)
             else (if isPlanet then 2 else 0))
      in Math_round (Math_round (calculateLocationDistance location dest) * multiplier)
           + penalty + 1)"

text \<open>
  \<open>margin\<close> is an optional parameter with default 0: \<open>None\<close> is the argument that
  is left out or \<^verbatim>\<open>undefined\<close>. The held fuel is the quantity of the first FUEL
  line of the ship's cargo, 0 when there is none.
\<close>

definition calculateFuelQuantity :: "IShip \<Rightarrow> real \<Rightarrow> real option \<Rightarrow> real" where
  "calculateFuelQuantity sh fuelToTravel margin_opt =
     (let margin = (case margin_opt of None \<Rightarrow> 0 | Some m \<Rightarrow> m);
          currentFuel =
            (case filter (\<lambda>c. good c = ''FUEL'') (ship_cargo sh) of
               [] \<Rightarrow> 0
             | c # _ \<Rightarrow> quantity c);
          quantity' = (if currentFuel \<ge> fuelToTravel then 0 else fuelToTravel - currentFuel)
      in Math_ceil (quantity' * (1 + (0.01 * margin))))"

definition calculatePricePerVolume :: "real \<Rightarrow> real \<Rightarrow> real" where
  "calculatePricePerVolume pricePerUnit' volumePerUnit' = pricePerUnit' / volumePerUnit'"

definition calculateGoodProfitPerVol :: "IGood \<Rightarrow> IGood \<Rightarrow> real" where
  "calculateGoodProfitPerVol a b =
     (let aPpV = calculatePricePerVolume (sellPricePerUnit a) (volumePerUnit a);
          bPpV = calculatePricePerVolume (purchasePricePerUnit b) (volumePerUnit b)
      in aPpV - bPpV)"

definition calculateGoodProfit :: "IGood \<Rightarrow> real \<Rightarrow> real" where
  "calculateGoodProfit g amount = sellPricePerUnit g * amount"

definition calculateGoodCost :: "IGood \<Rightarrow> real \<Rightarrow> real" where
  "calculateGoodCost g amount = purchasePricePerUnit g * amount"

definition calculateCargoVolume :: "IGood \<Rightarrow> real \<Rightarrow> real" where
  "calculateCargoVolume g amount = amount * volumePerUnit g"

definition calculateFuelToTravelCost :: "real \<Rightarrow> real option \<Rightarrow> real" where
  "calculateFuelToTravelCost amount unitCost = amount * ToNumber unitCost"

definition calculateGoodQuantity :: "real \<Rightarrow> real \<Rightarrow> real" where
  "calculateGoodQuantity space volumePerUnit' = Math_floor (Math_floor (space / volumePerUnit'))"

definition calculateProfitPerDU ::
  "ShipClass \<Rightarrow> IGood \<Rightarrow> IGood \<Rightarrow> IShip \<Rightarrow> ILocation \<Rightarrow> ILocation \<Rightarrow> real option \<Rightarrow> real" where
  "calculateProfitPerDU E aGood bGood sh location dest fuelUnitCost =
     (let distance = calculateLocationDistance location dest in
      if distance \<noteq> 0 then
        (let fuel = calculateFuelToTravel E sh location dest;
             fuelCost = calculateFuelToTravelCost fuel fuelUnitCost;
             goodProfitPerVol = calculateGoodProfitPerVol aGood bGood;
             profit = (goodProfitPerVol * (spaceAvailable sh - fuel)) - fuelCost
         in profit / distance)
      else 0)"

definition calculateFuelToTravelVolume :: "real \<Rightarrow> real" where
  "calculateFuelToTravelVolume amount = amount * 1"

definition calculateGoodVolume :: "real \<Rightarrow> IGood \<Rightarrow> real" where
  "calculateGoodVolume amount g = amount * volumePerUnit g"

definition calculateRemainingSpaceAfterRefuel :: "IShip \<Rightarrow> real \<Rightarrow> real" where
  "calculateRemainingSpaceAfterRefuel sh fuelQuantity =
     spaceAvailable sh - calculateFuelToTravelVolume fuelQuantity"

definition validateRange :: "IShip \<Rightarrow> real \<Rightarrow> ILocation \<Rightarrow> bool" where
  "validateRange sh rng location =
     (rng > calculateDistance (ship_x sh) (ship_y sh) (loc_x location) (loc_y location))"

text \<open>
  \<^verbatim>\<open>sortByKey\<close> sorts in place with a comparator that puts the larger key first
  and calls equal keys equal; the sort of the language is stable, so options of equal
  profit keep the order in which they were found.
\<close>

definition sortByKey :: "ITradeOption list \<Rightarrow> ITradeOption list" where
  "sortByKey arr = sort_key (\<lambda>opt. - profitPerDU opt) arr"

section \<open>Navigator: the routing engine\<close>

text \<open>
  Failures are values. \<open>TypeError\<close> is what the runtime raises when a property of
  \<^verbatim>\<open>undefined\<close> or \<^verbatim>\<open>null\<close> is read; \<open>Error\<close> carries the message of
  a \<^verbatim>\<open>throw new Error(...)\<close> of the source.
\<close>

datatype error = TypeError | Error string

definition NoProfitableTrade :: error where
  "NoProfitableTrade = Error ''No profitable trades found from this ship's position''"

definition NoTradeInRange :: error where
  "NoTradeInRange = Error ''No profitable trades found in the specified range''"

definition NoFeasibleFuelPlan :: error where
  "NoFeasibleFuelPlan = Error ''Not able to fuel a profitable trip''"

text \<open>
  The private fields of the class. A field that holds \<^verbatim>\<open>undefined\<close> or
  \<^verbatim>\<open>null\<close> is \<open>None\<close>. The objects in the lists are never modified, so they
  are held by value; the one array that is modified in place, the ranked list, is
  threaded through explicitly.
\<close>

record Navigator =
  initialized :: bool
  locations :: "ILocation list"
  ship :: IShip
  currentLocation :: "ILocation option"
  currentMarketplace :: "IGood list option"
  currentFuelUnitCost :: "real option"
  tradeOptions :: "ITradeOption list option"

definition getCurrentLocation :: "Navigator \<Rightarrow> ILocation option" where
  "getCurrentLocation e = find (\<lambda>l. ship_location (ship e) = loc_symbol l) (locations e)"

definition getCurrentMarketplace :: "Navigator \<Rightarrow> IGood list option" where
  "getCurrentMarketplace e =
     (case find (\<lambda>l. ship_location (ship e) = loc_symbol l) (locations e) of
        None \<Rightarrow> None
      | Some l \<Rightarrow> marketplace l)"

text \<open>Reading \<^verbatim>\<open>marketplace.length\<close> of a marketplace that is not there raises.\<close>

definition getCurrentFuelUnitCost :: "Navigator \<Rightarrow> error + real option" where
  "getCurrentFuelUnitCost e =
     (case getCurrentMarketplace e of
        None \<Rightarrow> Inl TypeError
      | Some m \<Rightarrow>
          Inr (case find (\<lambda>g. good_symbol g = ''FUEL'') m of
                 None \<Rightarrow> None
               | Some g \<Rightarrow> Some (purchasePricePerUnit g)))"

text \<open>
  The three assignments of \<^verbatim>\<open>setProperties\<close> happen in order; when the third
  raises, the first two have been made.
\<close>

definition setProperties :: "Navigator \<Rightarrow> (error + unit) \<times> Navigator" where
  "setProperties e =
     (let e1 = e\<lparr>currentLocation := getCurrentLocation e\<rparr>;
          e2 = e1\<lparr>currentMarketplace := getCurrentMarketplace e1\<rparr>
      in case getCurrentFuelUnitCost e2 of
           Inl err \<Rightarrow> (Inl err, e2)
         | Inr c \<Rightarrow> (Inr (), e2\<lparr>currentFuelUnitCost := c\<rparr>))"

text \<open>
  The body of the loop over the goods of a destination's marketplace: the local good
  is the first good of the current marketplace with the same symbol; the result is
  what the iteration pushes to the pool (nothing, or one option).
\<close>

definition tradeFor ::
  "ShipClass \<Rightarrow> Navigator \<Rightarrow> ILocation \<Rightarrow> IGood list \<Rightarrow> ILocation \<Rightarrow> IGood
     \<Rightarrow> error + ITradeOption list" where
  "tradeFor E e cl lm dest dGood =
     (case find (\<lambda>g. good_symbol g = good_symbol dGood) lm of
        None \<Rightarrow> Inr []
      | Some lGood \<Rightarrow>
          if quantityAvailable lGood > 0 then
            (case getCurrentFuelUnitCost e of
               Inl err \<Rightarrow> Inl err
             | Inr fuelUnitCost \<Rightarrow>
                 (let p = calculateProfitPerDU E dGood lGood (ship e) cl dest fuelUnitCost in
                  if p > 0 then
                    Inr [\<lparr>trade = \<lparr>destination = dest, localGood = lGood,
                                    destinationGood = dGood\<rparr>,
                          profitPerDU = p\<rparr>]
                  else Inr []))
          else Inr [])"

fun goodsLoop ::
  "ShipClass \<Rightarrow> Navigator \<Rightarrow> ILocation \<Rightarrow> IGood list \<Rightarrow> ILocation \<Rightarrow> IGood list
     \<Rightarrow> ITradeOption list \<Rightarrow> error + ITradeOption list" where
  "goodsLoop E e cl lm dest [] trades = Inr trades"
| "goodsLoop E e cl lm dest (dGood # rest) trades =
     (case tradeFor E e cl lm dest dGood of
        Inl err \<Rightarrow> Inl err
      | Inr new \<Rightarrow> goodsLoop E e cl lm dest rest (trades @ new))"

fun locationsLoop ::
  "ShipClass \<Rightarrow> Navigator \<Rightarrow> ILocation \<Rightarrow> IGood list \<Rightarrow> ILocation list
     \<Rightarrow> ITradeOption list \<Rightarrow> error + ITradeOption list" where
  "locationsLoop E e cl lm [] trades = Inr trades"
| "locationsLoop E e cl lm (l # rest) trades =
     (if loc_symbol l = loc_symbol cl then locationsLoop E e cl lm rest trades
      else
        (case marketplace l of
           None \<Rightarrow> locationsLoop E e cl lm rest trades
         | Some m \<Rightarrow>
             if m = [] then locationsLoop E e cl lm rest trades
             else
               (case goodsLoop E e cl lm l m trades of
                  Inl err \<Rightarrow> Inl err
                | Inr trades' \<Rightarrow> locationsLoop E e cl lm rest trades')))"

text \<open>
  \<^verbatim>\<open>sortTradeOptions\<close>: the early return, for a current location without goods,
  comes before the assignment to the ranked list. The diagnostic log at the end only
  prints and is left out.
\<close>

definition sortTradeOptions :: "ShipClass \<Rightarrow> Navigator \<Rightarrow> (error + unit) \<times> Navigator" where
  "sortTradeOptions E e =
     (case currentLocation e of
        None \<Rightarrow> (Inl TypeError, e)
      | Some cl \<Rightarrow>
          (case marketplace cl of
             None \<Rightarrow> (Inr (), e)
           | Some lm \<Rightarrow>
               if lm = [] then (Inr (), e)
               else
                 (case locationsLoop E e cl lm (locations e) [] of
                    Inl err \<Rightarrow> (Inl err, e)
                  | Inr trades \<Rightarrow> (Inr (), e\<lparr>tradeOptions := Some (sortByKey trades)\<rparr>))))"

definition updateLocationsData ::
  "ShipClass \<Rightarrow> ILocation list \<Rightarrow> Navigator \<Rightarrow> (error + unit) \<times> Navigator" where
  "updateLocationsData E locs e =
     (let e1 = e\<lparr>locations := locs\<rparr> in
      if initialized e1 then
        (case setProperties e1 of
           (Inl err, e2) \<Rightarrow> (Inl err, e2)
         | (Inr _, e2) \<Rightarrow> sortTradeOptions E e2)
      else (Inr (), e1))"

definition updateShipData ::
  "ShipClass \<Rightarrow> IShip \<Rightarrow> Navigator \<Rightarrow> (error + unit) \<times> Navigator" where
  "updateShipData E sh e =
     (let e1 = e\<lparr>ship := sh\<rparr> in
      case setProperties e1 of
        (Inl err, e2) \<Rightarrow> (Inl err, e2)
      | (Inr _, e2) \<Rightarrow>
          if initialized e2 then sortTradeOptions E e2 else (Inr (), e2))"

text \<open>
  The object before the constructor's body runs. Only \<open>initialized\<close> has an
  initialiser; the location list and the ship are assigned by the two updates before
  anything reads them, so the constructor's arguments stand in for them here.
\<close>

definition fresh :: "ILocation list \<Rightarrow> IShip \<Rightarrow> Navigator" where
  "fresh locs sh =
     \<lparr>initialized = False, locations = locs, ship = sh, currentLocation = None,
      currentMarketplace = None, currentFuelUnitCost = None, tradeOptions = None\<rparr>"

text \<open>A constructor that raises leaves no object: the result is the error alone.\<close>

definition constructor :: "ShipClass \<Rightarrow> ILocation list \<Rightarrow> IShip \<Rightarrow> error + Navigator" where
  "constructor E locs sh =
     (case updateLocationsData E locs (fresh locs sh) of
        (Inl err, _) \<Rightarrow> Inl err
      | (Inr _, e1) \<Rightarrow>
          (case updateShipData E sh e1 of
             (Inl err, _) \<Rightarrow> Inl err
           | (Inr _, e2) \<Rightarrow>
               (case sortTradeOptions E e2 of
                  (Inl err, _) \<Rightarrow> Inl err
                | (Inr _, e3) \<Rightarrow> Inr (e3\<lparr>initialized := True\<rparr>))))"

subsection \<open>navigate\<close>

text \<open>\<^verbatim>\<open>trades.splice(i, 1)\<close> removes the element at index \<open>i\<close> in place.\<close>

definition splice1 :: "nat \<Rightarrow> 'a list \<Rightarrow> 'a list" where
  "splice1 i xs = take i xs @ drop (Suc i) xs"

text \<open>
  The loop that looks for the first destination that can be fuelled, from index \<open>i\<close>
  on. It returns the array as the loop leaves it, and the destination with the fuel
  quantity and volume of the iteration that chose it (\<open>None\<close> when the loop ends
  with no destination set). Both rejections remove the element at \<open>i\<close> and
  \<^verbatim>\<open>continue\<close>, which then increments \<open>i\<close>.
\<close>

function fuelScan ::
  "ShipClass \<Rightarrow> Navigator \<Rightarrow> real option \<Rightarrow> nat \<Rightarrow> ITradeOption list
     \<Rightarrow> (error + (ILocation \<times> real \<times> real) option) \<times> ITradeOption list" where
  "fuelScan E e margin i trades =
     (if i < length trades then
        (case currentLocation e of
           None \<Rightarrow> (Inl TypeError, trades)
         | Some cl \<Rightarrow>
             (case currentMarketplace e of
                None \<Rightarrow> (Inl TypeError, trades)
              | Some m \<Rightarrow>
                  (let tr = trade (trades ! i);
                       fuelToTravel = calculateFuelToTravel E (ship e) cl (destination tr);
                       fuelQuantity = calculateFuelQuantity (ship e) fuelToTravel margin;
                       fuelVolume = calculateFuelToTravelVolume fuelQuantity;
                       localFuel = find (\<lambda>g. good_symbol g = ''FUEL'') m
                   in if fuelQuantity
                           > (case localFuel of None \<Rightarrow> 0 | Some g \<Rightarrow> quantityAvailable g)
                      then fuelScan E e margin (i + 1) (splice1 i trades)
                      else if spaceAvailable (ship e) < fuelQuantity
                      then fuelScan E e margin (i + 1) (splice1 i trades)
                      else (Inr (Some (destination tr, fuelQuantity, fuelVolume)), trades))))
      else (Inr None, trades))"
  by pat_completeness auto
termination
  by (relation "measure (\<lambda>(E, e, margin, i, trades). length trades - i)")
     (auto simp: splice1_def)

text \<open>The loop that fills the remaining cargo space, over the options left.\<close>

fun fillCargo :: "ITradeOption list \<Rightarrow> real \<Rightarrow> ICargo list \<Rightarrow> ICargo list" where
  "fillCargo [] remainingSpace cargo = cargo"
| "fillCargo (opt # rest) remainingSpace cargo =
     (if remainingSpace \<le> 0 then cargo
      else
        (let g = localGood (trade opt);
             goodQuantity0 = calculateGoodQuantity remainingSpace (volumePerUnit g);
             goodQuantity =
               (if goodQuantity0 > quantityAvailable g then quantityAvailable g
                else goodQuantity0);
             goodVolume = calculateGoodVolume goodQuantity g
         in fillCargo rest (remainingSpace - goodVolume)
              (cargo @ [\<lparr>good = good_symbol g, quantity = goodQuantity,
                          totalVolume = goodVolume\<rparr>])))"

text \<open>
  \<open>params = None\<close> is the call without a parameter object, which takes the default
  object; a field left out of a given object is \<open>None\<close>. A range that is left out
  or 0 is falsy and skips the filter. Without the filter \<open>trades\<close> is the engine's own
  array, so what the scan removes is removed from the engine; with the filter it is a
  new array. The result is what the call returns or raises, with the engine after it;
  \<open>Inr None\<close> is the lenient return without a value.
\<close>

definition navigate ::
  "ShipClass \<Rightarrow> INavigationParameters option \<Rightarrow> bool \<Rightarrow> Navigator
     \<Rightarrow> (error + ITradeRoute option) \<times> Navigator" where
  "navigate E params_opt strict e =
     (let params = (case params_opt of
                      None \<Rightarrow> \<lparr>param_range = Some 0, param_fuelMargin = Some 5\<rparr>
                    | Some p \<Rightarrow> p)
      in case tradeOptions e of
           None \<Rightarrow> (Inl TypeError, e)
         | Some stored \<Rightarrow>
             if stored = [] then
               (if strict then (Inl NoProfitableTrade, e) else (Inr None, e))
             else
               (let ranged = truthy (param_range params);
                    trades =
                      (if ranged then
                         filter (\<lambda>opt. validateRange (ship e) (ToNumber (param_range params))
                                         (destination (trade opt))) stored
                       else stored)
                in if ranged \<and> trades = [] then
                     (if strict then (Inl NoTradeInRange, e) else (Inr None, e))
                   else
                     (case fuelScan E e (param_fuelMargin params) 0 trades of
                        (found, trades') \<Rightarrow>
                          (let e' = (if ranged then e else e\<lparr>tradeOptions := Some trades'\<rparr>)
                           in case found of
                                Inl err \<Rightarrow> (Inl err, e')
                              | Inr None \<Rightarrow>
                                  (if strict then (Inl NoFeasibleFuelPlan, e')
                                   else (Inr None, e'))
                              | Inr (Some (dest, fuelQuantity, fuelVolume)) \<Rightarrow>
                                  (let trades'' =
                                         filter (\<lambda>opt. loc_symbol (destination (trade opt))
                                                        = loc_symbol dest) trades';
                                       cargo = [\<lparr>good = ''FUEL'', quantity = fuelQuantity,
                                                 totalVolume = fuelVolume\<rparr>];
                                       remainingSpace =
                                         calculateRemainingSpaceAfterRefuel (ship e)
                                           fuelQuantity
                                   in (Inr (Some \<lparr>route_destination = dest,
                                                  route_cargo =
                                                    fillCargo trades'' remainingSpace cargo\<rparr>),
                                       e'))))))"

declare fuelScan.simps [simp del]

section \<open>Notions of the specification\<close>

text \<open>
  The table of fuel brackets, as the specification words it: a multiplier and a planet
  penalty per ship class, with a fallback bracket for every other class.
\<close>

definition fuelBracket :: "ShipClass \<Rightarrow> string \<Rightarrow> real \<times> real" where
  "fuelBracket E ty =
     (if ty = HM_MK_III E then (0.188, 1)
      else if ty = GR_MK_III E then (0.25, 4)
      else if ty = GR_MK_II E then (0.25, 3)
      else (0.25, 2))"



text \<open>The FUEL the current marketplace has on offer, 0 when it lists none.\<close>

definition localFuelAvailable :: "Navigator \<Rightarrow> real" where
  "localFuelAvailable e =
     (case currentMarketplace e of
        None \<Rightarrow> 0
      | Some m \<Rightarrow>
          (case find (\<lambda>g. good_symbol g = ''FUEL'') m of
             None \<Rightarrow> 0
           | Some g \<Rightarrow> quantityAvailable g))"

text \<open>
  A candidate passes the two checks of the fuel scan when the fuel to buy for its
  destination is on offer and fits the ship.
\<close>

definition fuelFeasible :: "ShipClass \<Rightarrow> Navigator \<Rightarrow> real option \<Rightarrow> ITradeOption \<Rightarrow> bool" where
  "fuelFeasible E e margin opt =
     (case currentLocation e of
        None \<Rightarrow> False
      | Some cl \<Rightarrow>
          (let fq = calculateFuelQuantity (ship e)
                      (calculateFuelToTravel E (ship e) cl (destination (trade opt))) margin
           in fq \<le> localFuelAvailable e \<and> fq \<le> spaceAvailable (ship e)))"

section \<open>Concrete inputs\<close>

text \<open>
  Sample values for the members of \<^verbatim>\<open>ShipClass\<close>, and a ship of a type that is none
  of them, so that it falls into the fallback bracket.
\<close>

definition shipClasses :: ShipClass where
  "shipClasses =
     \<lparr>HM_MK_III = ''HM-MK-III'', GR_MK_III = ''GR-MK-III'', GR_MK_II = ''GR-MK-II''\<rparr>"

definition aGood :: "string \<Rightarrow> real \<Rightarrow> real \<Rightarrow> real \<Rightarrow> real \<Rightarrow> IGood" where
  "aGood s avail vol buy sell =
     \<lparr>quantityAvailable = avail, volumePerUnit = vol, pricePerUnit = buy, spread = 0,
      purchasePricePerUnit = buy, sellPricePerUnit = sell, good_symbol = s\<rparr>"

definition aLocation ::
  "string \<Rightarrow> string \<Rightarrow> real \<Rightarrow> real \<Rightarrow> IGood list option \<Rightarrow> ILocation" where
  "aLocation s ty px py m =
     \<lparr>loc_symbol = s, loc_type = ty, loc_name = s, loc_x = px, loc_y = py, marketplace = m\<rparr>"

definition aShip :: "string \<Rightarrow> real \<Rightarrow> ICargo list \<Rightarrow> IShip" where
  "aShip loc space held =
     \<lparr>ship_id = ''ship-1'', ship_location = loc, ship_x = 0, ship_y = 0, ship_cargo = held,
      spaceAvailable = space, ship_type = ''JW-MK-I'', ship_class = ''MK-I'', maxCargo = 50,
      speed = 1, manufacturer = ''Jackshaw'', plating = 5, weapons = 5\<rparr>"

subsection \<open>The scenario of the specification: A at (0,0), B at (3,4)\<close>

definition fuelAtA :: IGood where
  "fuelAtA = aGood ''FUEL'' 100 1 1 1"

definition metalAtA :: IGood where
  "metalAtA = aGood ''METAL'' 60 1 5 4"

definition metalAtB :: IGood where
  "metalAtB = aGood ''METAL'' 50 1 11 10"

definition locA :: ILocation where
  "locA = aLocation ''A'' ''PLANET'' 0 0 (Some [fuelAtA, metalAtA])"

definition locB :: ILocation where
  "locB = aLocation ''B'' ''MOON'' 3 4 (Some [metalAtB])"

definition shipAtA :: IShip where
  "shipAtA = aShip ''A'' 50 []"

definition optionAB :: ITradeOption where
  "optionAB = \<lparr>trade = \<lparr>destination = locB, localGood = metalAtA,
                          destinationGood = metalAtB\<rparr>,
               profitPerDU = 226 / 5\<rparr>"

definition engineAB :: Navigator where
  "engineAB =
     \<lparr>initialized = True, locations = [locA, locB], ship = shipAtA,
      currentLocation = Some locA, currentMarketplace = Some [fuelAtA, metalAtA],
      currentFuelUnitCost = Some 1, tradeOptions = Some [optionAB]\<rparr>"

definition routeAB :: ITradeRoute where
  "routeAB =
     \<lparr>route_destination = locB,
      route_cargo = [\<lparr>good = ''FUEL'', quantity = 5, totalVolume = 5\<rparr>,
                     \<lparr>good = ''METAL'', quantity = 45, totalVolume = 45\<rparr>]\<rparr>"

text \<open>The route of the same engine when the fuel is bought without a margin.\<close>

definition routeABnoMargin :: ITradeRoute where
  "routeABnoMargin =
     \<lparr>route_destination = locB,
      route_cargo = [\<lparr>good = ''FUEL'', quantity = 4, totalVolume = 4\<rparr>,
                     \<lparr>good = ''METAL'', quantity = 46, totalVolume = 46\<rparr>]\<rparr>"

subsection \<open>An origin with little fuel on offer and three destinations\<close>

text \<open>
  P offers 5 units of FUEL. FAR pays best per distance unit but needs 14 units of fuel;
  MID needs 5 and NEAR needs 4.
\<close>

definition fuelAtP :: IGood where
  "fuelAtP = aGood ''FUEL'' 5 1 1 1"

definition metalAtP :: IGood where
  "metalAtP = aGood ''METAL'' 100 1 5 4"

definition locP :: ILocation where
  "locP = aLocation ''P'' ''PLANET'' 0 0 (Some [fuelAtP, metalAtP])"

definition metalAtNear :: IGood where
  "metalAtNear = aGood ''METAL'' 50 1 7 6"

definition locNear :: ILocation where
  "locNear = aLocation ''NEAR'' ''MOON'' 0 1 (Some [metalAtNear])"

definition metalAtMid :: IGood where
  "metalAtMid = aGood ''METAL'' 50 1 11 10"

definition locMid :: ILocation where
  "locMid = aLocation ''MID'' ''MOON'' 3 4 (Some [metalAtMid])"

definition metalAtFar :: IGood where
  "metalAtFar = aGood ''METAL'' 50 1 101 100"

definition locFar :: ILocation where
  "locFar = aLocation ''FAR'' ''MOON'' 0 40 (Some [metalAtFar])"

definition shipAtP :: IShip where
  "shipAtP = aShip ''P'' 50 []"

definition optionFar :: ITradeOption where
  "optionFar = \<lparr>trade = \<lparr>destination = locFar, localGood = metalAtP,
                          destinationGood = metalAtFar\<rparr>, profitPerDU = 1751 / 20\<rparr>"

definition optionMid :: ITradeOption where
  "optionMid = \<lparr>trade = \<lparr>destination = locMid, localGood = metalAtP,
                          destinationGood = metalAtMid\<rparr>, profitPerDU = 226 / 5\<rparr>"

definition optionNear :: ITradeOption where
  "optionNear = \<lparr>trade = \<lparr>destination = locNear, localGood = metalAtP,
                          destinationGood = metalAtNear\<rparr>, profitPerDU = 44\<rparr>"

definition engineP :: Navigator where
  "engineP =
     \<lparr>initialized = True, locations = [locP, locNear, locMid, locFar], ship = shipAtP,
      currentLocation = Some locP, currentMarketplace = Some [fuelAtP, metalAtP],
      currentFuelUnitCost = Some 1, tradeOptions = Some [optionFar, optionMid, optionNear]\<rparr>"

definition routeNear :: ITradeRoute where
  "routeNear =
     \<lparr>route_destination = locNear,
      route_cargo = [\<lparr>good = ''FUEL'', quantity = 4, totalVolume = 4\<rparr>,
                     \<lparr>good = ''METAL'', quantity = 46, totalVolume = 46\<rparr>]\<rparr>"

definition routeMid :: ITradeRoute where
  "routeMid =
     \<lparr>route_destination = locMid,
      route_cargo = [\<lparr>good = ''FUEL'', quantity = 5, totalVolume = 5\<rparr>,
                     \<lparr>good = ''METAL'', quantity = 45, totalVolume = 45\<rparr>]\<rparr>"

definition enginePafter :: Navigator where
  "enginePafter = engineP\<lparr>tradeOptions := Some [optionMid, optionNear]\<rparr>"

subsection \<open>A destination that takes three goods, one of them bulky\<close>















subsection \<open>A system with a location whose marketplace is empty and one without any\<close>

definition locE :: ILocation where
  "locE = aLocation ''E'' ''MOON'' 6 8 (Some [])"

definition locD :: ILocation where
  "locD = aLocation ''D'' ''MOON'' 9 12 None"

definition shipAtE :: IShip where
  "shipAtE = aShip ''E'' 50 []"

definition shipAtD :: IShip where
  "shipAtD = aShip ''D'' 50 []"

definition systemLocations :: "ILocation list" where
  "systemLocations = [locA, locB, locE, locD]"

definition engineSys :: Navigator where
  "engineSys = engineAB\<lparr>locations := systemLocations\<rparr>"

definition engineMovedToE :: Navigator where
  "engineMovedToE =
     engineSys\<lparr>ship := shipAtE, currentLocation := Some locE, currentMarketplace := Some [],
               currentFuelUnitCost := None\<rparr>"

definition engineMovedToD :: Navigator where
  "engineMovedToD =
     engineSys\<lparr>ship := shipAtD, currentLocation := Some locD, currentMarketplace := None\<rparr>"

text \<open>The same system when the marketplace of A has been emptied.\<close>

definition locAsoldOut :: ILocation where
  "locAsoldOut = aLocation ''A'' ''PLANET'' 0 0 (Some [])"

definition engineSoldOut :: Navigator where
  "engineSoldOut =
     engineSys\<lparr>locations := [locAsoldOut, locB, locE, locD],
               currentLocation := Some locAsoldOut, currentMarketplace := Some [],
               currentFuelUnitCost := None\<rparr>"

definition engineBuiltAtE :: Navigator where
  "engineBuiltAtE =
     \<lparr>initialized = True, locations = systemLocations, ship = shipAtE,
      currentLocation = Some locE, currentMarketplace = Some [],
      currentFuelUnitCost = None, tradeOptions = None\<rparr>"

section \<open>Evaluation\<close>

lemmas mentat_defs =
  calculateDistance_def calculateLocationDistance_def calculateFuelToTravel_def
  calculateFuelQuantity_def calculatePricePerVolume_def calculateGoodProfitPerVol_def
  calculateFuelToTravelCost_def calculateGoodQuantity_def calculateProfitPerDU_def
  calculateFuelToTravelVolume_def calculateGoodVolume_def
  calculateRemainingSpaceAfterRefuel_def validateRange_def sortByKey_def
  Math_round_def Math_ceil_def Math_floor_def ToNumber_def truthy_def round_def

lemmas engine_defs =
  getCurrentLocation_def getCurrentMarketplace_def getCurrentFuelUnitCost_def
  setProperties_def tradeFor_def sortTradeOptions_def updateLocationsData_def
  updateShipData_def fresh_def constructor_def

lemmas input_defs = shipClasses_def aGood_def aLocation_def aShip_def

lemmas scenarioAB_defs =
  fuelAtA_def metalAtA_def metalAtB_def locA_def locB_def shipAtA_def optionAB_def
  engineAB_def routeAB_def

lemmas scenarioP_defs = fuelAtP_def metalAtP_def locP_def metalAtNear_def locNear_def
  metalAtMid_def locMid_def metalAtFar_def locFar_def shipAtP_def optionFar_def optionMid_def
  optionNear_def engineP_def routeNear_def routeMid_def enginePafter_def


lemmas scenarioSys_defs = locE_def locD_def shipAtE_def shipAtD_def systemLocations_def
  engineSys_def engineMovedToE_def engineMovedToD_def engineBuiltAtE_def
  locAsoldOut_def engineSoldOut_def

lemma sqrt_25: "sqrt 25 = 5"
  by (rule real_sqrt_unique) simp_all


lemma fuelScan_engineAB:
  "fuelScan shipClasses engineAB (Some 5) 0 [optionAB] = (Inr (Some (locB, 5, 5)), [optionAB])"
  by (simp add: fuelScan.simps [of _ _ _ 0] mentat_defs input_defs scenarioAB_defs sqrt_25)

lemma navigate_engineAB:
  "navigate shipClasses None False engineAB = (Inr (Some routeAB), engineAB)"
proof -
  have stored: "tradeOptions engineAB = Some [optionAB]"
    by (simp add: engineAB_def)
  show ?thesis
    by (simp add: navigate_def stored truthy_def fuelScan_engineAB)
       (simp add: mentat_defs input_defs scenarioAB_defs)
qed

section \<open>The calculation module\<close>








section \<open>The route query\<close>











lemma default_bracket:
  assumes "fuelBracket E ty = (0.25, 2)"
  shows "ty \<noteq> HM_MK_III E" "ty \<noteq> GR_MK_III E" "ty \<noteq> GR_MK_II E"
  using assms by (auto simp: fuelBracket_def split: if_splits)

text \<open>
  C5: location A, a planet at (0,0), sells FUEL (purchase price 1, 100 available,
  volume 1) and METAL (purchase price 5, at least 45 available, volume 1); location B
  at (3,4) takes METAL at 10 (volume 1); the ship is at A, in the bracket with
  multiplier 0.25 and planet penalty 2, has 50 units of space and holds no fuel. Then
  the engine built from A and B answers \<open>navigate\<close> with its defaults by the route to B
  with the cargo FUEL 5 (volume 5), METAL 45 (volume 45).
\<close>

theorem navigate_scenario:
  assumes A: "loc_x A = 0" "loc_y A = 0" "loc_type A = ''PLANET''"
      "marketplace A = Some [gFuel, gMetalA]"
    and B: "loc_x B = 3" "loc_y B = 4" "marketplace B = Some [gMetalB]"
      "loc_symbol B \<noteq> loc_symbol A"
    and fuel: "good_symbol gFuel = ''FUEL''" "purchasePricePerUnit gFuel = 1"
      "quantityAvailable gFuel = 100" "volumePerUnit gFuel = 1"
    and metalA: "good_symbol gMetalA = ''METAL''" "purchasePricePerUnit gMetalA = 5"
      "45 \<le> quantityAvailable gMetalA" "volumePerUnit gMetalA = 1"
    and metalB: "good_symbol gMetalB = ''METAL''" "sellPricePerUnit gMetalB = 10"
      "volumePerUnit gMetalB = 1"
    and sh: "ship_location sh = loc_symbol A" "spaceAvailable sh = 50"
      "filter (\<lambda>c. good c = ''FUEL'') (ship_cargo sh) = []"
      "fuelBracket E (ship_type sh) = (0.25, 2)"
  shows "\<exists>e. constructor E [A, B] sh = Inr e
           \<and> fst (navigate E None False e)
               = Inr (Some \<lparr>route_destination = B,
                            route_cargo = [\<lparr>good = ''FUEL'', quantity = 5, totalVolume = 5\<rparr>,
                                           \<lparr>good = ''METAL'', quantity = 45, totalVolume = 45\<rparr>]\<rparr>)"
proof -
  note ty = default_bracket [OF sh(4)]
  have dist: "calculateLocationDistance A B = 5"
    by (simp add: calculateLocationDistance_def calculateDistance_def A B sqrt_25)
  have ftt: "calculateFuelToTravel E sh A B = 4"
    by (simp add: calculateFuelToTravel_def dist ty A Math_round_def round_def)
  have fq: "calculateFuelQuantity sh 4 (Some 5) = 5"
    by (simp add: calculateFuelQuantity_def sh Math_ceil_def)
  have ppdu: "calculateProfitPerDU E gMetalB gMetalA sh A B (Some 1) = 226 / 5"
    by (simp add: calculateProfitPerDU_def dist ftt calculateFuelToTravelCost_def ToNumber_def
          calculateGoodProfitPerVol_def calculatePricePerVolume_def metalA metalB sh)
  define opt where "opt = \<lparr>trade = \<lparr>destination = B, localGood = gMetalA,
                                     destinationGood = gMetalB\<rparr>, profitPerDU = 226 / 5\<rparr>"
  define e where "e = \<lparr>initialized = True, locations = [A, B], ship = sh,
      currentLocation = Some A, currentMarketplace = Some [gFuel, gMetalA],
      currentFuelUnitCost = Some 1, tradeOptions = Some [opt]\<rparr>"
  have con: "constructor E [A, B] sh = Inr e"
    using metalA(3)
    by (simp add: engine_defs sortByKey_def A B sh fuel metalA(1,2,4) metalB ppdu e_def opt_def)
  have scan: "fuelScan E e (Some 5) 0 [opt]
                = (Inr (Some (B, 5, 5)), [opt])"
    by (simp add: fuelScan.simps [of _ _ _ 0] e_def opt_def ftt fq fuel sh
          calculateFuelToTravelVolume_def)
  have q: "calculateGoodQuantity 45 1 = 45"
    by (simp add: calculateGoodQuantity_def Math_floor_def)
  have "fst (navigate E None False e)
               = Inr (Some \<lparr>route_destination = B,
                            route_cargo = [\<lparr>good = ''FUEL'', quantity = 5, totalVolume = 5\<rparr>,
                                           \<lparr>good = ''METAL'', quantity = 45, totalVolume = 45\<rparr>]\<rparr>)"
    using metalA(3)
    by (simp add: navigate_def truthy_def scan [unfolded e_def opt_def] e_def
          calculateRemainingSpaceAfterRefuel_def calculateFuelToTravelVolume_def sh
          opt_def metalA(1,2,4) q calculateGoodVolume_def)
  with con show ?thesis by blast
qed

theorem navigate_scenario_witness:
  "loc_x locA = 0 \<and> loc_y locA = 0 \<and> loc_type locA = ''PLANET''
   \<and> marketplace locA = Some [fuelAtA, metalAtA]
   \<and> loc_x locB = 3 \<and> loc_y locB = 4 \<and> marketplace locB = Some [metalAtB]
   \<and> loc_symbol locB \<noteq> loc_symbol locA
   \<and> 45 \<le> quantityAvailable metalAtA
   \<and> spaceAvailable shipAtA = 50
   \<and> fuelBracket shipClasses (ship_type shipAtA) = (0.25, 2)
   \<and> (\<exists>e. constructor shipClasses [locA, locB] shipAtA = Inr e
           \<and> fst (navigate shipClasses None False e) = Inr (Some routeAB))"
  using navigate_scenario [of locA fuelAtA metalAtA locB metalAtB shipAtA shipClasses]
  by (simp add: input_defs fuelAtA_def metalAtA_def metalAtB_def locA_def locB_def
        shipAtA_def routeAB_def fuelBracket_def)

subsection \<open>Cargo lines without quantity\<close>







subsection \<open>The defaults of the parameters\<close>

lemma calculateFuelQuantity_default:
  "calculateFuelQuantity sh f None = calculateFuelQuantity sh f (Some 0)"
  by (simp add: calculateFuelQuantity_def)

lemma fuelScan_margin_default:
  "fuelScan E e None i trades = fuelScan E e (Some 0) i trades"
proof (induction E e "None :: real option" i trades rule: fuelScan.induct)
  case (1 E e i trades)
  note unfold = fuelScan.simps [of E e None i trades] fuelScan.simps [of E e "Some 0" i trades]
  show ?case
  proof (cases "i < length trades")
    case False
    then show ?thesis by (simp add: unfold)
  next
    case True
    note inrange = this
    show ?thesis
    proof (cases "currentLocation e")
      case None
      then show ?thesis by (simp add: unfold)
    next
      case (Some cl)
      note cl = this
      show ?thesis
      proof (cases "currentMarketplace e")
        case None
        with cl show ?thesis by (simp add: unfold)
      next
        case (Some m)
        note m = this
        let ?q = "calculateFuelQuantity (ship e)
                    (calculateFuelToTravel E (ship e) cl (destination (trade (trades ! i)))) None"
        let ?avail = "case find (\<lambda>g. good_symbol g = ''FUEL'') m of
                        None \<Rightarrow> 0 | Some g \<Rightarrow> quantityAvailable g"
        consider (nofuel) "?q > ?avail"
          | (nospace) "\<not> ?q > ?avail" "spaceAvailable (ship e) < ?q"
          | (ok) "\<not> ?q > ?avail" "\<not> spaceAvailable (ship e) < ?q"
          by blast
        then show ?thesis
        proof cases
          case nofuel
          from "1.hyps"(1) [OF inrange cl m refl refl refl refl refl] nofuel
          have "fuelScan E e None (i + 1) (splice1 i trades)
                  = fuelScan E e (Some 0) (i + 1) (splice1 i trades)"
            by simp
          with inrange cl m nofuel show ?thesis
            by (simp add: unfold Let_def calculateFuelQuantity_default)
        next
          case nospace
          from "1.hyps"(2) [OF inrange cl m refl refl refl refl refl] nospace
          have "fuelScan E e None (i + 1) (splice1 i trades)
                  = fuelScan E e (Some 0) (i + 1) (splice1 i trades)"
            by simp
          with inrange cl m nospace show ?thesis
            by (simp add: unfold Let_def calculateFuelQuantity_default)
        next
          case ok
          with inrange cl m show ?thesis
            by (simp add: unfold Let_def calculateFuelQuantity_default)
        qed
      qed
    qed
  qed
qed

lemma navigate_margin_default:
  "navigate E (Some \<lparr>param_range = r, param_fuelMargin = None\<rparr>) strict e
     = navigate E (Some \<lparr>param_range = r, param_fuelMargin = Some 0\<rparr>) strict e"
  unfolding navigate_def Let_def option.case INavigationParameters.select_convs
    fuelScan_margin_default
  by (rule refl)

lemma navigate_no_params:
  "navigate E None strict e
     = navigate E (Some \<lparr>param_range = Some 0, param_fuelMargin = Some 5\<rparr>) strict e"
  unfolding navigate_def option.case
  by (rule refl)

lemma fuelScan_engineAB_noMargin:
  "fuelScan shipClasses engineAB None 0 [optionAB] = (Inr (Some (locB, 4, 4)), [optionAB])"
  by (simp add: fuelScan.simps [of _ _ _ 0] mentat_defs input_defs scenarioAB_defs sqrt_25)

lemma inRange_engineAB:
  "filter (\<lambda>opt. validateRange (ship engineAB) 10 (destination (trade opt))) [optionAB]
     = [optionAB]"
  by (simp add: mentat_defs input_defs scenarioAB_defs sqrt_25)

lemma navigate_engineAB_range:
  "navigate shipClasses (Some \<lparr>param_range = Some 10, param_fuelMargin = None\<rparr>) False engineAB
     = (Inr (Some routeABnoMargin), engineAB)"
proof -
  have stored: "tradeOptions engineAB = Some [optionAB]"
    by (simp add: engineAB_def)
  show ?thesis
    by (simp add: navigate_def stored truthy_def ToNumber_def inRange_engineAB
          fuelScan_engineAB_noMargin)
       (simp add: mentat_defs input_defs scenarioAB_defs routeABnoMargin_def)
qed

text \<open>
  C10: a call that passes a parameter object without a fuel margin computes the fuel
  with margin 0, whatever the range; only the call without a parameter object takes
  the defaults range 0 and margin 5. In the scenario A, B the call with the range 10
  alone buys 4 units of fuel, the call without parameters buys 5.
\<close>

theorem navigate_margin_defaults:
  "navigate E (Some \<lparr>param_range = r, param_fuelMargin = None\<rparr>) strict e
     = navigate E (Some \<lparr>param_range = r, param_fuelMargin = Some 0\<rparr>) strict e
   \<and> navigate E None strict e
     = navigate E (Some \<lparr>param_range = Some 0, param_fuelMargin = Some 5\<rparr>) strict e
   \<and> fst (navigate shipClasses (Some \<lparr>param_range = Some 10, param_fuelMargin = None\<rparr>)
            False engineAB) = Inr (Some routeABnoMargin)
   \<and> fst (navigate shipClasses None False engineAB) = Inr (Some routeAB)
   \<and> quantity (hd (route_cargo routeABnoMargin)) = 4
   \<and> quantity (hd (route_cargo routeAB)) = 5"
proof (intro conjI)
  show "navigate E (Some \<lparr>param_range = r, param_fuelMargin = None\<rparr>) strict e
     = navigate E (Some \<lparr>param_range = r, param_fuelMargin = Some 0\<rparr>) strict e"
    by (rule navigate_margin_default)
  show "navigate E None strict e
     = navigate E (Some \<lparr>param_range = Some 0, param_fuelMargin = Some 5\<rparr>) strict e"
    by (rule navigate_no_params)
  show "fst (navigate shipClasses (Some \<lparr>param_range = Some 10, param_fuelMargin = None\<rparr>)
            False engineAB) = Inr (Some routeABnoMargin)"
    by (simp only: navigate_engineAB_range fst_conv)
  show "fst (navigate shipClasses None False engineAB) = Inr (Some routeAB)"
    by (simp only: navigate_engineAB fst_conv)
  show "quantity (hd (route_cargo routeABnoMargin)) = 4"
    by (simp add: routeABnoMargin_def)
  show "quantity (hd (route_cargo routeAB)) = 5"
    by (simp add: routeAB_def)
qed

subsection \<open>The fuel scan removes from the array it walks\<close>

lemma sqrt_1600: "sqrt 1600 = 40"
  by (rule real_sqrt_unique) simp_all

lemma constructor_engineP:
  "constructor shipClasses [locP, locNear, locMid, locFar] shipAtP = Inr engineP"
  by (simp add: engine_defs mentat_defs input_defs scenarioP_defs sqrt_25 sqrt_1600)

lemma fuelScan_engineP:
  "fuelScan shipClasses engineP (Some 5) 0 [optionFar, optionMid, optionNear]
     = (Inr (Some (locNear, 4, 4)), [optionMid, optionNear])"
  by (simp add: fuelScan.simps [of _ _ _ 0] fuelScan.simps [of _ _ _ "Suc 0"] splice1_def
        mentat_defs input_defs scenarioP_defs sqrt_25 sqrt_1600)

lemma navigate_engineP:
  "navigate shipClasses None False engineP
     = (Inr (Some routeNear), enginePafter)"
proof -
  have stored: "tradeOptions engineP = Some [optionFar, optionMid, optionNear]"
    by (simp add: engineP_def)
  show ?thesis
    by (simp add: navigate_def stored truthy_def fuelScan_engineP)
       (simp add: mentat_defs input_defs scenarioP_defs)
qed

lemma fuelScan_engineP2:
  "fuelScan shipClasses (enginePafter) (Some 5) 0
       [optionMid, optionNear]
     = (Inr (Some (locMid, 5, 5)), [optionMid, optionNear])"
  by (simp add: fuelScan.simps [of _ _ _ 0] splice1_def
        mentat_defs input_defs scenarioP_defs sqrt_25 sqrt_1600)

lemma navigate_engineP2:
  "navigate shipClasses None False enginePafter = (Inr (Some routeMid), enginePafter)"
proof -
  have stored: "tradeOptions enginePafter = Some [optionMid, optionNear]"
    by (simp add: enginePafter_def)
  have same: "enginePafter\<lparr>tradeOptions := Some [optionMid, optionNear]\<rparr> = enginePafter"
    by (simp add: enginePafter_def)
  show ?thesis
    by (simp add: navigate_def stored truthy_def fuelScan_engineP2 same)
       (simp add: mentat_defs input_defs scenarioP_defs)
qed

text \<open>
  C2: the fuel scan is to choose the first candidate, in ranked order, that passes both
  checks, skipping no candidate before it. The code departs from that: the engine at
  P ranks FAR, MID, NEAR; FAR fails the fuel check, MID and NEAR pass both checks, so
  the first candidate that passes is MID. The scan removes FAR at index 0 and goes on
  at index 1, which is NEAR by then: MID is never examined and \<open>navigate\<close> returns the
  route to NEAR.
\<close>

theorem fuel_scan_skips_candidate:
  "constructor shipClasses [locP, locNear, locMid, locFar] shipAtP = Inr engineP
   \<and> tradeOptions engineP = Some [optionFar, optionMid, optionNear]
   \<and> profitPerDU optionFar > profitPerDU optionMid
   \<and> profitPerDU optionMid > profitPerDU optionNear
   \<and> find (fuelFeasible shipClasses engineP (Some 5)) [optionFar, optionMid, optionNear]
       = Some optionMid
   \<and> fuelFeasible shipClasses engineP (Some 5) optionNear
   \<and> fst (navigate shipClasses None False engineP) = Inr (Some routeNear)
   \<and> route_destination routeNear = locNear
   \<and> destination (trade optionMid) = locMid
   \<and> locMid \<noteq> locNear"
proof -
  have "\<not> fuelFeasible shipClasses engineP (Some 5) optionFar"
    and "fuelFeasible shipClasses engineP (Some 5) optionMid"
    and "fuelFeasible shipClasses engineP (Some 5) optionNear"
    by (simp_all add: fuelFeasible_def localFuelAvailable_def mentat_defs input_defs
          scenarioP_defs sqrt_25 sqrt_1600)
  moreover have "tradeOptions engineP = Some [optionFar, optionMid, optionNear]"
    by (simp add: engineP_def)
  moreover have "profitPerDU optionFar > profitPerDU optionMid"
    and "profitPerDU optionMid > profitPerDU optionNear"
    by (simp_all add: optionFar_def optionMid_def optionNear_def)
  moreover have "route_destination routeNear = locNear"
    and "destination (trade optionMid) = locMid" and "locMid \<noteq> locNear"
    by (simp_all add: routeNear_def optionMid_def locMid_def locNear_def aLocation_def)
  ultimately show ?thesis
    by (simp add: constructor_engineP navigate_engineP)
qed

lemma navigate_ranged_frame:
  "truthy (param_range p) \<Longrightarrow> snd (navigate E (Some p) strict e) = e"
proof -
  assume r: "truthy (param_range p)"
  show ?thesis
  proof (cases "tradeOptions e")
    case None
    then show ?thesis by (simp add: navigate_def)
  next
    case (Some stored)
    obtain found trades' where scan:
      "fuelScan E e (param_fuelMargin p) 0
         (filter (\<lambda>opt. validateRange (ship e) (ToNumber (param_range p))
                        (destination (trade opt))) stored) = (found, trades')"
      by (cases "fuelScan E e (param_fuelMargin p) 0
         (filter (\<lambda>opt. validateRange (ship e) (ToNumber (param_range p))
                        (destination (trade opt))) stored)")
    show ?thesis
      by (simp add: navigate_def Some r scan Let_def split: sum.split option.split)
  qed
qed

text \<open>
  C6: \<open>navigate\<close> is to leave the engine as it is, so that the same call twice gives
  the same result. With a range it does, as shown above. Without one the code departs
  from that: the scan works on the engine's own ranked list. The first call on the
  engine at P returns the route to NEAR and leaves the engine with the list MID, NEAR;
  the same call on the engine as it is then returns the route to MID.
\<close>

theorem navigate_mutates_engine:
  "constructor shipClasses [locP, locNear, locMid, locFar] shipAtP = Inr engineP
   \<and> navigate shipClasses None False engineP = (Inr (Some routeNear), enginePafter)
   \<and> tradeOptions engineP = Some [optionFar, optionMid, optionNear]
   \<and> tradeOptions enginePafter = Some [optionMid, optionNear]
   \<and> enginePafter \<noteq> engineP
   \<and> navigate shipClasses None False enginePafter = (Inr (Some routeMid), enginePafter)
   \<and> routeMid \<noteq> routeNear"
proof -
  have "tradeOptions engineP = Some [optionFar, optionMid, optionNear]"
    and "tradeOptions enginePafter = Some [optionMid, optionNear]"
    by (simp_all add: engineP_def enginePafter_def)
  moreover from this have "enginePafter \<noteq> engineP"
    by auto
  moreover have "routeMid \<noteq> routeNear"
    by (simp add: routeMid_def routeNear_def)
  ultimately show ?thesis
    using navigate_engineP navigate_engineP2 constructor_engineP
    by (simp add: enginePafter_def)
qed

subsection \<open>A current location without goods\<close>

lemma constructor_engineSys: "constructor shipClasses systemLocations shipAtA = Inr engineSys"
  by (simp add: engine_defs mentat_defs input_defs scenarioAB_defs scenarioSys_defs sqrt_25)

lemma update_to_E: "updateShipData shipClasses shipAtE engineSys = (Inr (), engineMovedToE)"
  by (simp add: engine_defs input_defs scenarioAB_defs scenarioSys_defs)

lemma update_sold_out:
  "updateLocationsData shipClasses [locAsoldOut, locB, locE, locD] engineSys
     = (Inr (), engineSoldOut)"
  by (simp add: engine_defs input_defs scenarioAB_defs scenarioSys_defs)

lemma update_to_D: "updateShipData shipClasses shipAtD engineSys = (Inl TypeError, engineMovedToD)"
  by (simp add: engine_defs input_defs scenarioAB_defs scenarioSys_defs)

lemma constructor_at_D: "constructor shipClasses systemLocations shipAtD = Inl TypeError"
  by (simp add: engine_defs input_defs scenarioAB_defs scenarioSys_defs)

lemma constructor_at_E: "constructor shipClasses systemLocations shipAtE = Inr engineBuiltAtE"
  by (simp add: engine_defs input_defs scenarioAB_defs scenarioSys_defs)

lemma navigate_built_at_E:
  "navigate shipClasses None strict engineBuiltAtE = (Inl TypeError, engineBuiltAtE)"
  by (simp add: navigate_def engineBuiltAtE_def)

lemma fuelScan_moved:
  "fuelScan shipClasses engineMovedToE (Some 5) 0 [optionAB] = (Inr None, [])"
  by (simp add: fuelScan.simps [of _ _ _ 0] fuelScan.simps [of _ _ _ "Suc 0"] splice1_def
         mentat_defs input_defs scenarioAB_defs scenarioSys_defs sqrt_25)

lemma navigate_moved:
  "navigate shipClasses None True engineMovedToE
     = (Inl NoFeasibleFuelPlan, engineMovedToE\<lparr>tradeOptions := Some []\<rparr>)"
proof -
  have stored: "tradeOptions engineMovedToE = Some [optionAB]"
    by (simp add: scenarioSys_defs engineAB_def)
  show ?thesis
    by (simp add: navigate_def stored truthy_def fuelScan_moved)
qed

text \<open>
  C3: a rebuild for a current location without goods is to leave the engine with the
  empty ranked list, the previous list discarded. The code departs from that: the
  engine built for the ship at A ranks the trade to B; moving the ship to E, whose
  marketplace is empty, rebuilds without an error and leaves that ranked list as it
  was, and so does replacing the locations by ones in which the marketplace of A is
  empty. Built directly for the ship at E, the engine has no ranked list at all.
\<close>

theorem rebuild_keeps_stale_options:
  "constructor shipClasses systemLocations shipAtA = Inr engineSys
   \<and> tradeOptions engineSys = Some [optionAB]
   \<and> updateShipData shipClasses shipAtE engineSys = (Inr (), engineMovedToE)
   \<and> currentLocation engineMovedToE = Some locE
   \<and> marketplace locE = Some []
   \<and> tradeOptions engineMovedToE = Some [optionAB]
   \<and> updateLocationsData shipClasses [locAsoldOut, locB, locE, locD] engineSys
       = (Inr (), engineSoldOut)
   \<and> currentLocation engineSoldOut = Some locAsoldOut
   \<and> marketplace locAsoldOut = Some []
   \<and> tradeOptions engineSoldOut = Some [optionAB]
   \<and> constructor shipClasses systemLocations shipAtE = Inr engineBuiltAtE
   \<and> tradeOptions engineBuiltAtE = None"
  by (simp add: constructor_engineSys update_to_E update_sold_out constructor_at_E)
     (simp add: scenarioSys_defs engineAB_def aLocation_def)

text \<open>
  C4: on an engine whose current location has no marketplace \<open>navigate\<close> is to return
  nothing in lenient mode and to fail with \<open>NoProfitableTrade\<close> in strict mode, and
  neither it nor the construction is to raise a type error. The code departs from
  that: building the engine for a ship at D, a location without a marketplace, raises
  a type error. Built for a ship at E, whose marketplace is empty, the engine answers
  \<open>navigate\<close> with a type error in both modes. An engine whose ship has moved to E
  answers the strict call with the failure of the fuel scan, and moving the ship to D
  raises a type error.
\<close>

theorem missing_marketplace_raises:
  "marketplace locD = None
   \<and> constructor shipClasses systemLocations shipAtD = Inl TypeError
   \<and> marketplace locE = Some []
   \<and> constructor shipClasses systemLocations shipAtE = Inr engineBuiltAtE
   \<and> navigate shipClasses None False engineBuiltAtE = (Inl TypeError, engineBuiltAtE)
   \<and> navigate shipClasses None True engineBuiltAtE = (Inl TypeError, engineBuiltAtE)
   \<and> updateShipData shipClasses shipAtD engineSys = (Inl TypeError, engineMovedToD)
   \<and> fst (navigate shipClasses None True engineMovedToE) = Inl NoFeasibleFuelPlan
   \<and> NoFeasibleFuelPlan \<noteq> NoProfitableTrade"
  by (simp add: constructor_at_D constructor_at_E navigate_built_at_E update_to_D
        navigate_moved)
     (simp add: locD_def locE_def aLocation_def NoFeasibleFuelPlan_def NoProfitableTrade_def)

end
